theory Spec2Isabelle
  imports Complex_Main "HOL-Library.Sublist"
begin

section \<open>Architectures: the layer stacks of \<^verbatim>\<open>xn2v/neural_networks.py\<close>\<close>

text \<open>
  A layer is described by its constructor call. \<^verbatim>\<open>Input(shape, name=...)\<close> carries the
  shape tuple and the optional name, \<^verbatim>\<open>Dense(units, activation=...)\<close> the number of units
  and the optional activation name, \<^verbatim>\<open>Dropout(rate)\<close> the rate as the decimal written
  in the source (\<open>0.3\<close> is \<open>3/10\<close>).
\<close>

type_synonym shape = "int list"

datatype layer =
    Input shape "string option"
  | Dense int "string option"
  | BatchNormalization
  | Activation string
  | Dropout rat
  | Concatenate

text \<open>
  In the functional interface a layer object is called on tensors. Every constructor call
  makes a new layer object with parameters of its own, so a tensor records the identity of
  the layer object that produced it, the layer, and the tensors it was called on.
\<close>

datatype tensor = Tensor nat layer "tensor list"

datatype keras_model =
    Sequential "layer list" string
  | Model "tensor list" tensor

text \<open>\<^verbatim>\<open>MLP._build_model\<close>\<close>

definition MLP_build_model :: "shape \<Rightarrow> keras_model" where
  "MLP_build_model input_shape = Sequential [
      Input input_shape None,
      Dense 128 (Some ''relu''),
      Dense 128 (Some ''relu''),
      Dense 64 (Some ''relu''),
      Dense 32 (Some ''relu''),
      Dense 16 (Some ''relu''),
      Dense 1 (Some ''sigmoid'')
    ] ''MLP''"

text \<open>\<^verbatim>\<open>FFNN._build_model\<close>\<close>

definition FFNN_build_model :: "shape \<Rightarrow> keras_model" where
  "FFNN_build_model input_shape = Sequential [
      Input input_shape None,
      Dense 128 (Some ''relu''),
      Dense 128 None,
      BatchNormalization,
      Activation ''relu'',
      Dropout (3/10),
      Dense 64 (Some ''relu''),
      Dense 64 (Some ''relu''),
      BatchNormalization,
      Activation ''relu'',
      Dropout (3/10),
      Dense 32 (Some ''relu''),
      Dense 32 (Some ''relu''),
      BatchNormalization,
      Activation ''relu'',
      Dropout (3/10),
      Dense 16 (Some ''relu''),
      Dense 8 (Some ''relu''),
      Dense 1 (Some ''sigmoid'')
    ] ''FFNN''"

text \<open>
  Building a functional graph threads a counter of the layer objects made so far:
  \<^verbatim>\<open>L(...)(t)\<close> makes layer object number \<open>n\<close> and calls it on \<open>t\<close>.
\<close>

definition call_layer :: "layer \<Rightarrow> tensor list \<Rightarrow> nat \<Rightarrow> tensor \<times> nat" where
  "call_layer l inbound n = (Tensor n l inbound, Suc n)"

text \<open>
  \<^verbatim>\<open>hidden = L1(...)(previous); hidden = L2(...)(hidden); ...\<close>: the layers of the list
  are made and called one after the other, each on the result of the one before.
\<close>

fun chain :: "layer list \<Rightarrow> tensor \<Rightarrow> nat \<Rightarrow> tensor \<times> nat" where
  "chain [] hidden n = (hidden, n)"
| "chain (l # ls) hidden n = (case call_layer l [hidden] n of (h, n') \<Rightarrow> chain ls h n')"

text \<open>\<^verbatim>\<open>MultiModalFFNN._sub_module\<close>\<close>

definition sub_module :: "tensor \<Rightarrow> nat \<Rightarrow> tensor \<times> nat" where
  "sub_module previous = chain [
      Dense 128 (Some ''relu''),
      Dense 128 None,
      BatchNormalization,
      Activation ''relu'',
      Dropout (3/10),
      Dense 64 (Some ''relu''),
      Dense 64 (Some ''relu''),
      BatchNormalization,
      Activation ''relu'',
      Dropout (3/10),
      Dense 32 (Some ''relu''),
      Dense 32 (Some ''relu''),
      BatchNormalization,
      Activation ''relu''
    ] previous"

text \<open>\<^verbatim>\<open>MultiModalFFNN._build_model\<close>\<close>

definition MultiModalFFNN_build_model :: "shape \<Rightarrow> keras_model" where
  "MultiModalFFNN_build_model input_shape =
    (case call_layer (Input input_shape (Some ''left_input'')) [] 0 of (left_input, n1) \<Rightarrow>
     case call_layer (Input input_shape (Some ''right_input'')) [] n1 of (right_input, n2) \<Rightarrow>
     case sub_module left_input n2 of (left_module, n3) \<Rightarrow>
     case sub_module right_input n3 of (right_module, n4) \<Rightarrow>
     case call_layer Concatenate [left_module, right_module] n4 of (middle, n5) \<Rightarrow>
     case chain [
         Dropout (3/10),
         Dense 64 (Some ''relu''),
         Dense 64 (Some ''relu''),
         BatchNormalization,
         Activation ''relu'',
         Dropout (3/10),
         Dense 32 (Some ''relu''),
         Dense 32 (Some ''relu''),
         BatchNormalization,
         Activation ''relu'',
         Dense 16 (Some ''relu''),
         Dense 8 (Some ''relu'')
       ] middle n5 of (hidden, n6) \<Rightarrow>
     case call_layer (Dense 1 (Some ''sigmoid'')) [hidden] n6 of (head, n7) \<Rightarrow>
     Model [left_input, right_input] head)"

section \<open>The trainer: \<^verbatim>\<open>NeuralNetwork\<close> and its subclasses\<close>

text \<open>
  The class of a trainer, with the \<^verbatim>\<open>_input_shape\<close> attribute the three subclasses store
  before calling the constructor of the base class.
\<close>

datatype cls = NeuralNetwork | MLP shape | FFNN shape | MultiModalFFNN shape

datatype 'e error = ValueError string | NotImplementedError string | EngineError 'e

text \<open>\<^verbatim>\<open>self._build_model()\<close>, dispatched on the class of \<^verbatim>\<open>self\<close>.\<close>

fun build_model :: "cls \<Rightarrow> 'e error + keras_model" where
  "build_model NeuralNetwork =
     Inl (NotImplementedError ''The method _build_model has to be implemented in the subclasses.'')"
| "build_model (MLP input_shape) = Inr (MLP_build_model input_shape)"
| "build_model (FFNN input_shape) = Inr (FFNN_build_model input_shape)"
| "build_model (MultiModalFFNN input_shape) = Inr (MultiModalFFNN_build_model input_shape)"

text \<open>
  The arguments of \<^verbatim>\<open>compile\<close>: a metric is given by its name, or is an \<^verbatim>\<open>AUC\<close> object
  with its curve and its name.
\<close>

datatype metric = Named string | AUC string string

fun metric_name :: "metric \<Rightarrow> string" where
  "metric_name (Named s) = s"
| "metric_name (AUC curve name) = name"

record compile_args =
  optimizer :: string
  loss :: string
  metrics :: "metric list"

text \<open>
  The Keras model object a trainer owns: its architecture, what it was compiled with, and
  its parameters \<open>'w\<close>, the part the execution engine changes when it trains.
\<close>

record 'w model_state =
  architecture :: keras_model
  compiled :: "compile_args option"
  weights :: 'w

record 'w trainer =
  trainer_cls :: cls
  max_epochs :: int
  batch_size :: int
  monitor :: string
  patience :: int
  model :: "'w model_state"

text \<open>
  \<^verbatim>\<open>NeuralNetwork._compile_model\<close>. Compiling is the engine's work; what the trainer
  decides is the arguments, which the model object keeps.
\<close>

definition compile_model :: "'w model_state \<Rightarrow> 'w model_state" where
  "compile_model m = m\<lparr>compiled := Some \<lparr>
      optimizer = ''nadam'',
      loss = ''binary_crossentropy'',
      metrics = [
        Named ''accuracy'',
        AUC ''ROC'' ''auroc'',
        AUC ''PR'' ''auroc''
      ]\<rparr>\<rparr>"

text \<open>
  \<^verbatim>\<open>NeuralNetwork.__init__\<close>. The initial parameters of a built architecture come from the
  execution engine, \<open>initial_weights\<close>. An exception of \<^verbatim>\<open>_build_model\<close> leaves the
  constructor before any trainer exists.
\<close>

definition NeuralNetwork_init ::
  "(keras_model \<Rightarrow> 'w) \<Rightarrow> cls \<Rightarrow> int \<Rightarrow> int \<Rightarrow> string \<Rightarrow> int \<Rightarrow> 'e error + 'w trainer" where
  "NeuralNetwork_init initial_weights c max_epochs' batch_size' monitor' patience' =
    (case build_model c of
       Inl e \<Rightarrow> Inl e
     | Inr built \<Rightarrow> Inr \<lparr>
         trainer_cls = c,
         max_epochs = max_epochs',
         batch_size = batch_size',
         monitor = monitor',
         patience = patience',
         model = compile_model
           \<lparr>architecture = built, compiled = None, weights = initial_weights built\<rparr>\<rparr>)"

text \<open>The defaults of the constructor's keyword parameters.\<close>

definition default_max_epochs :: int where "default_max_epochs = 1000"
definition default_batch_size :: int where "default_batch_size = 64"
definition default_monitor :: string where "default_monitor = ''auprc''"
definition default_patience :: int where "default_patience = 10"

section \<open>Fitting\<close>

text \<open>
  Training data is a tuple whose members are arrays, or dictionaries from input names to
  arrays. The arrays themselves, of type \<open>'a\<close>, are never inspected by the trainer.
\<close>

datatype 'a data = Array 'a | Dict "(string \<times> 'a) list"

datatype callback = EarlyStopping string int | TQDMNotebookCallback | TQDMCallback

datatype 'a kwarg =
    KInt int
  | KBool bool
  | KData "'a data list option"
  | KCallbacks "callback list"

text \<open>
  The call \<^verbatim>\<open>self._model.fit(*train, epochs=..., ...)\<close>: the positional arguments and
  the keyword arguments in the order written.
\<close>

record 'a fit_call =
  args :: "'a data list"
  kwargs :: "(string \<times> 'a kwarg) list"

definition startswith :: "string \<Rightarrow> string \<Rightarrow> bool" where
  "startswith s p = prefix p s"

text \<open>
  The call that \<^verbatim>\<open>NeuralNetwork.fit\<close> makes once its check has passed; \<open>is_notebook\<close> is
  what \<^verbatim>\<open>is_notebook()\<close> answers in the host process.
\<close>

definition model_fit_call ::
  "'w trainer \<Rightarrow> bool \<Rightarrow> 'a data list \<Rightarrow> 'a data list option \<Rightarrow> 'a fit_call" where
  "model_fit_call self is_notebook train test = \<lparr>
     args = train,
     kwargs = [
       (''epochs'', KInt (max_epochs self)),
       (''batch_size'', KInt (batch_size self)),
       (''validation'', KData test),
       (''verbose'', KBool False),
       (''shuffle'', KBool True),
       (''callbacks'', KCallbacks [
          EarlyStopping (monitor self) (patience self),
          if is_notebook then TQDMNotebookCallback else TQDMCallback])
     ]\<rparr>"

datatype 'h DataFrame = DataFrame 'h

text \<open>
  \<^verbatim>\<open>NeuralNetwork.fit\<close>. The execution engine is outside the repository: \<open>engine_fit\<close>
  takes the model object and the call, and gives back either the exception it raises or the
  \<^verbatim>\<open>history\<close> attribute of what it returns, together with the model object as the call
  left it. The result of \<open>fit\<close> is what the caller gets and the trainer afterwards.
\<close>

definition fit ::
  "('w model_state \<Rightarrow> 'a fit_call \<Rightarrow> ('e + 'h) \<times> 'w model_state) \<Rightarrow> bool \<Rightarrow>
   'w trainer \<Rightarrow> 'a data list \<Rightarrow> 'a data list option \<Rightarrow>
   ('e error + 'h DataFrame) \<times> 'w trainer" where
  "fit engine_fit is_notebook self train test =
    (if test = None \<and> startswith (monitor self) ''val_'' then
       (Inl (ValueError
          ''No test set was given, but a validation metric was required for the early stopping.''),
        self)
     else
       (case engine_fit (model self) (model_fit_call self is_notebook train test) of
          (Inl e, m) \<Rightarrow> (Inl (EngineError e), self\<lparr>model := m\<rparr>)
        | (Inr history, m) \<Rightarrow> (Inr (DataFrame history), self\<lparr>model := m\<rparr>)))"

text \<open>\<^verbatim>\<open>MultiModalFFNN.fit\<close>\<close>

definition MultiModalFFNN_fit ::
  "('w model_state \<Rightarrow> 'a fit_call \<Rightarrow> ('e + 'h) \<times> 'w model_state) \<Rightarrow> bool \<Rightarrow>
   'w trainer \<Rightarrow> 'a \<Rightarrow> 'a \<Rightarrow> 'a \<Rightarrow> 'a option \<Rightarrow> 'a option \<Rightarrow> 'a option \<Rightarrow>
   ('e error + 'h DataFrame) \<times> 'w trainer" where
  "MultiModalFFNN_fit engine_fit is_notebook self
       left_input_train right_input_train output_train
       left_input_test right_input_test output_test =
    (let train = [
           Dict [(''left_input'', left_input_train), (''right_input'', right_input_train)],
           Array output_train];
         test =
           (if list_all (\<lambda>d. d \<noteq> None) [left_input_test, right_input_test, output_test] then
              Some [
                Dict [(''left_input'', the left_input_test),
                      (''right_input'', the right_input_test)],
                Array (the output_test)]
            else None)
     in fit engine_fit is_notebook self train test)"

text \<open>
  An engine to run the trainer on concrete inputs: it answers with the call it was given
  as the history, and counts in the parameters how many times it has been entered.
\<close>

definition recording_engine ::
  "nat model_state \<Rightarrow> 'a fit_call \<Rightarrow> (unit + 'a fit_call) \<times> nat model_state" where
  "recording_engine m c = (Inr c, m\<lparr>weights := Suc (weights m)\<rparr>)"

definition zero_weights :: "keras_model \<Rightarrow> nat" where
  "zero_weights built = 0"

text \<open>
  The trainers \<^verbatim>\<open>MLP((2,), 2, 64, monitor, 10)\<close> and
  \<^verbatim>\<open>MultiModalFFNN((2,), 2, 64, monitor, 10)\<close> as the constructor leaves them, on an
  engine whose initial parameters are \<open>0\<close>.
\<close>

definition mlp_trainer :: "string \<Rightarrow> nat trainer" where
  "mlp_trainer monitor' = \<lparr>
     trainer_cls = MLP [2],
     max_epochs = 2,
     batch_size = 64,
     monitor = monitor',
     patience = 10,
     model = compile_model
       \<lparr>architecture = MLP_build_model [2], compiled = None, weights = 0\<rparr>\<rparr>"

definition fusion_trainer :: "string \<Rightarrow> nat trainer" where
  "fusion_trainer monitor' = \<lparr>
     trainer_cls = MultiModalFFNN [2],
     max_epochs = 2,
     batch_size = 64,
     monitor = monitor',
     patience = 10,
     model = compile_model
       \<lparr>architecture = MultiModalFFNN_build_model [2], compiled = None, weights = 0\<rparr>\<rparr>"

text \<open>The names of the metrics a trainer's model was compiled with.\<close>

definition compiled_metric_names :: "'w trainer \<Rightarrow> string list" where
  "compiled_metric_names self =
     (case compiled (model self) of None \<Rightarrow> [] | Some c \<Rightarrow> map metric_name (metrics c))"

text \<open>
  Arrays given as nested lists have their first dimension as their length. Only the
  statements about shapes use it: the trainer does not.
\<close>

definition leading_dimension :: "'x list \<Rightarrow> nat" where
  "leading_dimension xs = length xs"

text \<open>
  The keyword parameters of \<^verbatim>\<open>Model.fit\<close> in \<^verbatim>\<open>tensorflow.keras\<close>, the execution
  engine the trainer calls. They belong to that library, not to the repository; the list is
  the one of its documentation, with the legacy \<^verbatim>\<open>nb_epoch\<close>. A call with any other
  keyword is refused with a \<^verbatim>\<open>TypeError\<close> before the engine does anything.
\<close>

definition Model_fit_parameters :: "string list" where
  "Model_fit_parameters = [
     ''x'', ''y'', ''batch_size'', ''epochs'', ''verbose'', ''callbacks'',
     ''validation_split'', ''validation_data'', ''shuffle'', ''class_weight'',
     ''sample_weight'', ''initial_epoch'', ''steps_per_epoch'', ''validation_steps'',
     ''validation_batch_size'', ''validation_freq'', ''max_queue_size'', ''workers'',
     ''use_multiprocessing'', ''nb_epoch'']"

definition unrecognized_keywords :: "'a fit_call \<Rightarrow> string list" where
  "unrecognized_keywords c =
     filter (\<lambda>k. k \<notin> set Model_fit_parameters) (map fst (kwargs c))"

section \<open>Reading an architecture\<close>

text \<open>The layer list of a sequential model; a functional model has none.\<close>

fun stack_of :: "keras_model \<Rightarrow> layer list" where
  "stack_of (Sequential ls name) = ls"
| "stack_of (Model inputs outputs) = []"

fun model_name :: "keras_model \<Rightarrow> string option" where
  "model_name (Sequential ls name) = Some name"
| "model_name (Model inputs outputs) = None"

fun is_projection :: "layer \<Rightarrow> bool" where
  "is_projection (Dense u a) = True"
| "is_projection l = False"

fun is_regularization :: "layer \<Rightarrow> bool" where
  "is_regularization BatchNormalization = True"
| "is_regularization (Dropout r) = True"
| "is_regularization l = False"

text \<open>The projections of a layer list in order, each with its width and its activation.\<close>

fun projections :: "layer list \<Rightarrow> (int \<times> string option) list" where
  "projections [] = []"
| "projections (Dense u a # ls) = (u, a) # projections ls"
| "projections (l # ls) = projections ls"

text \<open>
  The width levels of a layer list: a projection of a new width opens a level, and every
  layer up to the next projection of another width belongs to it. Layers before the first
  projection (the input) belong to no level.
\<close>

definition extend_last :: "(int \<times> layer list) list \<Rightarrow> layer \<Rightarrow> (int \<times> layer list) list" where
  "extend_last acc l =
     (case rev acc of [] \<Rightarrow> [] | (w, b) # r \<Rightarrow> rev r @ [(w, b @ [l])])"

fun place :: "(int \<times> layer list) list \<Rightarrow> layer \<Rightarrow> (int \<times> layer list) list" where
  "place acc (Dense u a) =
     (if acc \<noteq> [] \<and> fst (last acc) = u then extend_last acc (Dense u a)
      else acc @ [(u, [Dense u a])])"
| "place acc l = extend_last acc l"

definition levels :: "layer list \<Rightarrow> (int \<times> layer list) list" where
  "levels ls = foldl place [] ls"

text \<open>
  The deep variant in the words of the specification: every hidden width level (all levels
  but the output) is a block of two projections, and every hidden level above the narrowest
  one is a first projection followed, in this order, by a second projection with no
  non-linearity, a normalization, an explicit non-linearity and a dropout of rate \<open>0.3\<close>.
\<close>

definition two_projection_block :: "layer list \<Rightarrow> bool" where
  "two_projection_block b = (length (filter is_projection b) = 2)"

fun regularized_block :: "layer list \<Rightarrow> bool" where
  "regularized_block [Dense u1 a1, Dense u2 None, BatchNormalization, Activation f, Dropout r] =
     (r = 3/10)"
| "regularized_block b = False"

definition spec_deep_variant :: "layer list \<Rightarrow> bool" where
  "spec_deep_variant ls =
     (let hidden = butlast (levels ls)
      in list_all (\<lambda>(w, b). two_projection_block b) hidden \<and>
         list_all (\<lambda>(w, b). regularized_block b) (butlast hidden))"

text \<open>Reading a functional graph.\<close>

fun model_inputs :: "keras_model \<Rightarrow> tensor list" where
  "model_inputs (Model inputs outputs) = inputs"
| "model_inputs (Sequential ls name) = []"

fun model_outputs :: "keras_model \<Rightarrow> tensor list" where
  "model_outputs (Model inputs outputs) = [outputs]"
| "model_outputs (Sequential ls name) = []"

fun producer :: "tensor \<Rightarrow> layer" where
  "producer (Tensor n l inbound) = l"

fun inbound_of :: "tensor \<Rightarrow> tensor list" where
  "inbound_of (Tensor n l inbound) = inbound"

text \<open>
  Going back from a tensor through the layers called on a single tensor: \<open>origin\<close> is where
  that ends (an input, or a layer that merges several tensors), \<open>spine\<close> the layers passed
  on the way, in the order they are applied, without the one of the origin.
\<close>

fun origin :: "tensor \<Rightarrow> tensor" where
  "origin (Tensor n l [t]) = origin t"
| "origin t = t"

fun spine :: "tensor \<Rightarrow> layer list" where
  "spine (Tensor n l [t]) = spine t @ [l]"
| "spine t = []"

text \<open>The layer objects of the whole graph under a tensor, one entry for each call.\<close>

fun layer_ids :: "tensor \<Rightarrow> nat list" where
  "layer_ids (Tensor n l inbound) = n # concat (map layer_ids inbound)"

text \<open>
  The size of the last axis of a tensor: a projection sets it to its number of units, a
  concatenation adds those of its inbound tensors, the other layers keep it.
\<close>

fun out_width :: "tensor \<Rightarrow> int option" where
  "out_width (Tensor n (Dense u a) inbound) = Some u"
| "out_width (Tensor n (Input s name) inbound) = (if s = [] then None else Some (last s))"
| "out_width (Tensor n Concatenate inbound) =
     map_option sum_list (those (map out_width inbound))"
| "out_width (Tensor n l [t]) = out_width t"
| "out_width (Tensor n l inbound) = None"

section \<open>The validation gate of fit\<close>

lemma startswith_val_auprc: "startswith ''val_auprc'' ''val_''"
  by (simp add: startswith_def)

lemma not_startswith_auprc: "\<not> startswith ''auprc'' ''val_''"
  by (simp add: startswith_def)

lemma mlp_trainer_constructed:
  "NeuralNetwork_init zero_weights (MLP [2]) 2 64 monitor' 10 = Inr (mlp_trainer monitor')"
  by (simp add: NeuralNetwork_init_def mlp_trainer_def zero_weights_def)

lemma fusion_trainer_constructed:
  "NeuralNetwork_init zero_weights (MultiModalFFNN [2]) 2 64 monitor' 10 =
     Inr (fusion_trainer monitor')"
  by (simp add: NeuralNetwork_init_def fusion_trainer_def zero_weights_def)

lemma monitor_mlp_trainer: "monitor (mlp_trainer m) = m"
  by (simp add: mlp_trainer_def)

lemma monitor_fusion_trainer: "monitor (fusion_trainer m) = m"
  by (simp add: fusion_trainer_def)

text \<open>
  C1: when \<open>test\<close> is \<open>None\<close> and the monitor metric starts with \<open>val_\<close>, \<open>fit\<close> raises
  the \<open>ValueError\<close> whatever the engine is, so before the engine is entered; the caller
  gets no history and the trainer, with its model, is as it was.
\<close>

theorem fit_validation_gate:
  assumes "test = None" and "startswith (monitor self) ''val_''"
  shows "fit engine_fit is_notebook self train test =
           (Inl (ValueError
              ''No test set was given, but a validation metric was required for the early stopping.''),
            self)"
  using assms by (simp add: fit_def)

theorem fit_validation_gate_witness:
  "startswith (monitor (mlp_trainer ''val_auprc'')) ''val_'' \<and>
   fit recording_engine False (mlp_trainer ''val_auprc'')
       [Array [[1, 2], [3, 4], [5, 6 :: int]], Array [[0], [1], [1]]] None =
     (Inl (ValueError
        ''No test set was given, but a validation metric was required for the early stopping.''),
      mlp_trainer ''val_auprc'')"
proof -
  have gate: "startswith (monitor (mlp_trainer ''val_auprc'')) ''val_''"
    by (simp add: monitor_mlp_trainer startswith_val_auprc)
  show ?thesis
    using gate fit_validation_gate [OF refl gate, of recording_engine False
        "[Array [[1, 2], [3, 4], [5, 6 :: int]], Array [[0], [1], [1]]]"]
    by simp
qed

section \<open>Construction\<close>

text \<open>
  C10: constructing the base class itself fails for every set of hyperparameters: the
  constructor calls \<^verbatim>\<open>_build_model\<close>, which raises \<open>NotImplementedError\<close>, so no trainer
  of the base class is returned.
\<close>

theorem base_class_not_constructible:
  "NeuralNetwork_init initial_weights NeuralNetwork max_epochs' batch_size' monitor' patience' =
     Inl (NotImplementedError
        ''The method _build_model has to be implemented in the subclasses.'')"
  by (simp add: NeuralNetwork_init_def)

lemma compiled_metrics_of_any_trainer:
  "NeuralNetwork_init initial_weights c me bs mon pat = Inr self \<Longrightarrow>
     compiled (model self) = Some \<lparr>optimizer = ''nadam'', loss = ''binary_crossentropy'',
        metrics = [Named ''accuracy'', AUC ''ROC'' ''auroc'', AUC ''PR'' ''auroc'']\<rparr>"
  by (auto simp add: NeuralNetwork_init_def compile_model_def split: sum.splits)

text \<open>
  C2: the metrics compiled into a trainer. The trainer \<^verbatim>\<open>MLP((2,), 2)\<close> with the
  default monitor is compiled with metrics named \<open>accuracy\<close>, \<open>auroc\<close> and \<open>auroc\<close> again:
  the area under the precision-recall curve is given the name \<open>auroc\<close>, and no compiled
  metric is named \<open>auprc\<close>, the default monitor.
\<close>

theorem compiled_metrics_of_default_trainer:
  "compiled (model (mlp_trainer default_monitor)) = Some \<lparr>
       optimizer = ''nadam'', loss = ''binary_crossentropy'',
       metrics = [Named ''accuracy'', AUC ''ROC'' ''auroc'', AUC ''PR'' ''auroc'']\<rparr>
   \<and> compiled_metric_names (mlp_trainer default_monitor) = [''accuracy'', ''auroc'', ''auroc'']
   \<and> default_monitor = ''auprc''
   \<and> default_monitor \<notin> set (compiled_metric_names (mlp_trainer default_monitor))"
  by (simp add: compiled_metric_names_def mlp_trainer_def compile_model_def default_monitor_def)

section \<open>Fitting the dual-input architecture\<close>

lemma MultiModalFFNN_fit_all_present:
  "MultiModalFFNN_fit engine_fit is_notebook self l r out (Some lt) (Some rt) (Some ot) =
     fit engine_fit is_notebook self
       [Dict [(''left_input'', l), (''right_input'', r)], Array out]
       (Some [Dict [(''left_input'', lt), (''right_input'', rt)], Array ot])"
  by (simp add: MultiModalFFNN_fit_def)

text \<open>
  C3: when at least one of \<open>left_input_test\<close>, \<open>right_input_test\<close>, \<open>output_test\<close> is
  \<open>None\<close> (so with exactly one or two of them given), the fit of the dual-input
  architecture gives the same result and leaves the same trainer as with none of them: it
  is the generic fit on the training data with \<open>test = None\<close>.
\<close>

theorem MultiModalFFNN_fit_partial_test:
  assumes "left_input_test = None \<or> right_input_test = None \<or> output_test = None"
  shows "MultiModalFFNN_fit engine_fit is_notebook self
           left_input_train right_input_train output_train
           left_input_test right_input_test output_test =
         MultiModalFFNN_fit engine_fit is_notebook self
           left_input_train right_input_train output_train None None None
       \<and> MultiModalFFNN_fit engine_fit is_notebook self
           left_input_train right_input_train output_train
           left_input_test right_input_test output_test =
         fit engine_fit is_notebook self
           [Dict [(''left_input'', left_input_train), (''right_input'', right_input_train)],
            Array output_train]
           None"
  using assms by (auto simp add: MultiModalFFNN_fit_def)

theorem MultiModalFFNN_fit_partial_test_witness:
  "MultiModalFFNN_fit recording_engine False (fusion_trainer ''auprc'')
     [[1, 2], [3, 4]] [[5, 6], [7, 8]] [[0], [1 :: int]] (Some [[9, 9]]) None (Some [[1]]) =
   MultiModalFFNN_fit recording_engine False (fusion_trainer ''auprc'')
     [[1, 2], [3, 4]] [[5, 6], [7, 8]] [[0], [1 :: int]] None None None
   \<and> fst (MultiModalFFNN_fit recording_engine False (fusion_trainer ''auprc'')
     [[1, 2], [3, 4]] [[5, 6], [7, 8]] [[0], [1 :: int]] (Some [[9, 9]]) None (Some [[1]])) =
     Inr (DataFrame \<lparr>
       args = [Dict [(''left_input'', [[1, 2], [3, 4]]), (''right_input'', [[5, 6], [7, 8]])],
               Array [[0], [1]]],
       kwargs = [
         (''epochs'', KInt 2), (''batch_size'', KInt 64), (''validation'', KData None),
         (''verbose'', KBool False), (''shuffle'', KBool True),
         (''callbacks'', KCallbacks [EarlyStopping ''auprc'' 10, TQDMCallback])]\<rparr>)"
proof -
  have partial: "Some [[9, 9 :: int]] = None \<or> (None :: int list list option) = None
      \<or> Some [[1 :: int]] = None"
    by simp
  note th = MultiModalFFNN_fit_partial_test [OF partial, of recording_engine False
        "fusion_trainer ''auprc''" "[[1, 2], [3, 4]]" "[[5, 6], [7, 8]]" "[[0], [1]]"]
  have run: "fst (fit recording_engine False (fusion_trainer ''auprc'')
       [Dict [(''left_input'', [[1, 2], [3, 4]]), (''right_input'', [[5, 6], [7, 8]])],
        Array [[0], [1 :: int]]] None) =
     Inr (DataFrame \<lparr>
       args = [Dict [(''left_input'', [[1, 2], [3, 4]]), (''right_input'', [[5, 6], [7, 8]])],
               Array [[0], [1]]],
       kwargs = [
         (''epochs'', KInt 2), (''batch_size'', KInt 64), (''validation'', KData None),
         (''verbose'', KBool False), (''shuffle'', KBool True),
         (''callbacks'', KCallbacks [EarlyStopping ''auprc'' 10, TQDMCallback])]\<rparr>)"
    by (simp add: fit_def model_fit_call_def recording_engine_def fusion_trainer_def
        not_startswith_auprc)
  from th have none: "MultiModalFFNN_fit recording_engine False (fusion_trainer ''auprc'')
       [[1, 2], [3, 4]] [[5, 6], [7, 8]] [[0], [1 :: int]] (Some [[9, 9]]) None (Some [[1]]) =
     MultiModalFFNN_fit recording_engine False (fusion_trainer ''auprc'')
       [[1, 2], [3, 4]] [[5, 6], [7, 8]] [[0], [1 :: int]] None None None"
    by (rule conjunct1)
  from th run show ?thesis
    by (simp only: none [symmetric] simp_thms)
qed

section \<open>The generic fit and the execution engine\<close>

text \<open>
  C8, as stated: a call of \<open>fit\<close> whose features and labels disagree in their first
  dimension is stopped with an error before training. It is not: \<open>fit\<close> has no check on
  shapes. With three rows of features and two labels, and an engine that records what it is
  called with, the engine is entered with exactly these arrays and its answer is returned.
\<close>

theorem fit_enters_engine_on_mismatched_shapes:
  "leading_dimension [[1, 2], [3, 4], [5, 6 :: int]] \<noteq> leading_dimension [[0], [1 :: int]]
   \<and> fit recording_engine False (mlp_trainer ''auprc'')
       [Array [[1, 2], [3, 4], [5, 6]], Array [[0], [1]]] None =
     (Inr (DataFrame \<lparr>
        args = [Array [[1, 2], [3, 4], [5, 6]], Array [[0], [1]]],
        kwargs = [
          (''epochs'', KInt 2), (''batch_size'', KInt 64), (''validation'', KData None),
          (''verbose'', KBool False), (''shuffle'', KBool True),
          (''callbacks'', KCallbacks [EarlyStopping ''auprc'' 10, TQDMCallback])]\<rparr>),
      (mlp_trainer ''auprc'')\<lparr>model := (model (mlp_trainer ''auprc''))\<lparr>weights := 1\<rparr>\<rparr>)"
  by (simp add: leading_dimension_def fit_def model_fit_call_def recording_engine_def
      mlp_trainer_def not_startswith_auprc compile_model_def)

text \<open>
  C8, amended: \<open>fit\<close> checks nothing about shapes. Whenever its validation gate passes,
  it hands \<open>train\<close> and \<open>test\<close> to the engine as they are, whatever their shapes, and
  returns what the engine answers, an exception of the engine or its history as a table,
  with the model as the engine left it.
\<close>

theorem fit_forwards_to_engine:
  assumes "\<not> (test = None \<and> startswith (monitor self) ''val_'')"
  shows "fit engine_fit is_notebook self train test =
           (case engine_fit (model self) (model_fit_call self is_notebook train test) of
              (outcome, m) \<Rightarrow> (map_sum EngineError DataFrame outcome, self\<lparr>model := m\<rparr>))
         \<and> args (model_fit_call self is_notebook train test) = train
         \<and> map_of (kwargs (model_fit_call self is_notebook train test)) ''validation'' =
             Some (KData test)"
  using assms by (auto simp add: fit_def model_fit_call_def split: prod.splits sum.splits)

theorem fit_forwards_to_engine_witness:
  "startswith (monitor (mlp_trainer ''val_auprc'')) ''val_''
   \<and> fit recording_engine True (mlp_trainer ''val_auprc'')
       [Array [[1, 2], [3, 4], [5, 6 :: int]], Array [[0], [1]]]
       (Some [Array [[7, 8]], Array [[1], [0], [1]]]) =
     (Inr (DataFrame \<lparr>
        args = [Array [[1, 2], [3, 4], [5, 6]], Array [[0], [1]]],
        kwargs = [
          (''epochs'', KInt 2), (''batch_size'', KInt 64),
          (''validation'', KData (Some [Array [[7, 8]], Array [[1], [0], [1]]])),
          (''verbose'', KBool False), (''shuffle'', KBool True),
          (''callbacks'', KCallbacks [EarlyStopping ''val_auprc'' 10, TQDMNotebookCallback])]\<rparr>),
      (mlp_trainer ''val_auprc'')\<lparr>model := (model (mlp_trainer ''val_auprc''))\<lparr>weights := 1\<rparr>\<rparr>)"
proof -
  have given: "\<not> (Some [Array [[7, 8 :: int]], Array [[1], [0], [1]]] = None
      \<and> startswith (monitor (mlp_trainer ''val_auprc'')) ''val_'')"
    by simp
  note th = fit_forwards_to_engine [OF given, of recording_engine True
      "[Array [[1, 2], [3, 4], [5, 6]], Array [[0], [1]]]", THEN conjunct1]
  show ?thesis
    unfolding th
    by (simp add: model_fit_call_def recording_engine_def mlp_trainer_def compile_model_def
        startswith_val_auprc)
qed

text \<open>
  C9: the call \<open>fit\<close> makes for \<^verbatim>\<open>MLP((2,), 2).fit((X, y))\<close>, with the default monitor
  and no test data. The gate passes, and the call carries the keyword \<^verbatim>\<open>validation\<close>,
  which is not a parameter of \<^verbatim>\<open>Model.fit\<close> (the validation data is its
  \<^verbatim>\<open>validation_data\<close>).
\<close>

theorem fit_passes_unrecognized_keyword:
  "\<not> startswith (monitor (mlp_trainer default_monitor)) ''val_''
   \<and> map fst (kwargs (model_fit_call (mlp_trainer default_monitor) False
         [Array [[1, 2], [3, 4], [5, 6 :: int]], Array [[0], [1], [1]]] None)) =
       [''epochs'', ''batch_size'', ''validation'', ''verbose'', ''shuffle'', ''callbacks'']
   \<and> unrecognized_keywords (model_fit_call (mlp_trainer default_monitor) False
         [Array [[1, 2], [3, 4], [5, 6 :: int]], Array [[0], [1], [1]]] None) =
       [''validation'']"
  by (simp add: monitor_mlp_trainer default_monitor_def not_startswith_auprc
      model_fit_call_def unrecognized_keywords_def Model_fit_parameters_def)

section \<open>The single-input architectures\<close>

text \<open>
  C6: for every input shape, the shallow architecture is the input followed by projections
  only: five of widths 128, 128, 64, 32, 16, each with the \<open>relu\<close> non-linearity, and a last
  one of width 1 with the \<open>sigmoid\<close>. It has no normalization and no dropout stage.
\<close>

theorem MLP_architecture:
  "model_name (MLP_build_model input_shape) = Some ''MLP''
   \<and> stack_of (MLP_build_model input_shape) =
       Input input_shape None #
       map (\<lambda>(u, a). Dense u a) (projections (stack_of (MLP_build_model input_shape)))
   \<and> projections (stack_of (MLP_build_model input_shape)) =
       [(128, Some ''relu''), (128, Some ''relu''), (64, Some ''relu''), (32, Some ''relu''),
        (16, Some ''relu''), (1, Some ''sigmoid'')]
   \<and> filter is_regularization (stack_of (MLP_build_model input_shape)) = []"
  by (simp add: MLP_build_model_def)

lemma FFNN_levels:
  "levels (stack_of (FFNN_build_model input_shape)) =
    [(128, [Dense 128 (Some ''relu''), Dense 128 None, BatchNormalization,
            Activation ''relu'', Dropout (3/10)]),
     (64, [Dense 64 (Some ''relu''), Dense 64 (Some ''relu''), BatchNormalization,
           Activation ''relu'', Dropout (3/10)]),
     (32, [Dense 32 (Some ''relu''), Dense 32 (Some ''relu''), BatchNormalization,
           Activation ''relu'', Dropout (3/10)]),
     (16, [Dense 16 (Some ''relu'')]),
     (8, [Dense 8 (Some ''relu'')]),
     (1, [Dense 1 (Some ''sigmoid'')])]"
  by (simp add: FFNN_build_model_def levels_def extend_last_def)

text \<open>
  C5, as stated: every width level of the deep architecture is a block of two projections,
  and every level above the narrowest has a second projection with no non-linearity, a
  normalization, a non-linearity and a dropout of rate \<open>0.3\<close>. It does not hold: the level
  of width 16 is a single projection, and the second projection of the level of width 64
  has the \<open>relu\<close> non-linearity.
\<close>

theorem FFNN_not_spec_deep_variant:
  "\<not> spec_deep_variant (stack_of (FFNN_build_model [50]))
   \<and> levels (stack_of (FFNN_build_model [50])) ! 1 =
       (64, [Dense 64 (Some ''relu''), Dense 64 (Some ''relu''), BatchNormalization,
             Activation ''relu'', Dropout (3/10)])
   \<and> \<not> regularized_block (snd (levels (stack_of (FFNN_build_model [50])) ! 1))
   \<and> levels (stack_of (FFNN_build_model [50])) ! 3 = (16, [Dense 16 (Some ''relu'')])
   \<and> \<not> two_projection_block (snd (levels (stack_of (FFNN_build_model [50])) ! 3))"
  by (simp add: FFNN_levels spec_deep_variant_def two_projection_block_def)

text \<open>
  C5, amended: for every input shape, the levels of widths 128, 64 and 32 of the deep
  architecture are two projections followed, in this order, by a normalization, an explicit
  \<open>relu\<close> non-linearity and a dropout of rate \<open>0.3\<close>; the second projection of the level of
  width 128 has no non-linearity; below them come single projections of widths 16 and 8
  with \<open>relu\<close>, and the output of width 1 with the \<open>sigmoid\<close>.
\<close>

theorem FFNN_architecture:
  "model_name (FFNN_build_model input_shape) = Some ''FFNN''
   \<and> hd (stack_of (FFNN_build_model input_shape)) = Input input_shape None
   \<and> map fst (levels (stack_of (FFNN_build_model input_shape))) = [128, 64, 32, 16, 8, 1]
   \<and> map (\<lambda>(w, b). length b) (levels (stack_of (FFNN_build_model input_shape))) =
       [5, 5, 5, 1, 1, 1]
   \<and> map (\<lambda>(w, b). map fst (projections b))
         (take 3 (levels (stack_of (FFNN_build_model input_shape)))) =
       [[128, 128], [64, 64], [32, 32]]
   \<and> map (\<lambda>(w, b). map is_projection (take 2 b))
         (take 3 (levels (stack_of (FFNN_build_model input_shape)))) =
       [[True, True], [True, True], [True, True]]
   \<and> map (\<lambda>(w, b). drop 2 b) (take 3 (levels (stack_of (FFNN_build_model input_shape)))) =
       [[BatchNormalization, Activation ''relu'', Dropout (3/10)],
        [BatchNormalization, Activation ''relu'', Dropout (3/10)],
        [BatchNormalization, Activation ''relu'', Dropout (3/10)]]
   \<and> snd (levels (stack_of (FFNN_build_model input_shape)) ! 0) ! 1 = Dense 128 None
   \<and> drop 3 (levels (stack_of (FFNN_build_model input_shape))) =
       [(16, [Dense 16 (Some ''relu'')]), (8, [Dense 8 (Some ''relu'')]),
        (1, [Dense 1 (Some ''sigmoid'')])]"
  by (simp add: FFNN_levels) (simp add: FFNN_build_model_def)

section \<open>The dual-input architecture\<close>

text \<open>
  C7: for every input shape, the output of the dual-input architecture goes back, through
  a head that starts with a dropout and ends in a projection of width 1 with the
  \<open>sigmoid\<close>, to one concatenation of two tensors. These two come from the inputs
  \<open>left_input\<close> and \<open>right_input\<close> through the same sequence of layers, which ends with a
  projection of width 32, a normalization and a non-linearity, and no dropout. No layer
  object occurs twice in the graph, so the two branches share no parameters. Each branch
  is 32 wide and their concatenation 64 wide.
\<close>

theorem MultiModalFFNN_architecture:
  "model_inputs (MultiModalFFNN_build_model input_shape) =
       [Tensor 0 (Input input_shape (Some ''left_input'')) [],
        Tensor 1 (Input input_shape (Some ''right_input'')) []]
   \<and> map (producer \<circ> origin) (model_outputs (MultiModalFFNN_build_model input_shape)) =
       [Concatenate]
   \<and> map (map origin \<circ> inbound_of \<circ> origin)
         (model_outputs (MultiModalFFNN_build_model input_shape)) =
       [model_inputs (MultiModalFFNN_build_model input_shape)]
   \<and> map (map spine \<circ> inbound_of \<circ> origin)
         (model_outputs (MultiModalFFNN_build_model input_shape)) =
       [[[Dense 128 (Some ''relu''), Dense 128 None, BatchNormalization, Activation ''relu'',
          Dropout (3/10),
          Dense 64 (Some ''relu''), Dense 64 (Some ''relu''), BatchNormalization,
          Activation ''relu'', Dropout (3/10),
          Dense 32 (Some ''relu''), Dense 32 (Some ''relu''), BatchNormalization,
          Activation ''relu''],
         [Dense 128 (Some ''relu''), Dense 128 None, BatchNormalization, Activation ''relu'',
          Dropout (3/10),
          Dense 64 (Some ''relu''), Dense 64 (Some ''relu''), BatchNormalization,
          Activation ''relu'', Dropout (3/10),
          Dense 32 (Some ''relu''), Dense 32 (Some ''relu''), BatchNormalization,
          Activation ''relu'']]]
   \<and> map (distinct \<circ> layer_ids) (model_outputs (MultiModalFFNN_build_model input_shape)) =
       [True]
   \<and> map (map out_width \<circ> inbound_of \<circ> origin)
         (model_outputs (MultiModalFFNN_build_model input_shape)) =
       [[Some 32, Some 32]]
   \<and> map (out_width \<circ> origin) (model_outputs (MultiModalFFNN_build_model input_shape)) =
       [Some 64]
   \<and> map spine (model_outputs (MultiModalFFNN_build_model input_shape)) =
       [[Dropout (3/10),
         Dense 64 (Some ''relu''), Dense 64 (Some ''relu''), BatchNormalization,
         Activation ''relu'', Dropout (3/10),
         Dense 32 (Some ''relu''), Dense 32 (Some ''relu''), BatchNormalization,
         Activation ''relu'',
         Dense 16 (Some ''relu''), Dense 8 (Some ''relu''),
         Dense 1 (Some ''sigmoid'')]]
   \<and> map out_width (model_outputs (MultiModalFFNN_build_model input_shape)) = [Some 1]"
  by (simp add: MultiModalFFNN_build_model_def sub_module_def call_layer_def)

end
